theory Spec2Isabelle
  imports Complex_Main
begin

section \<open>JavaScript values\<close>

text \<open>
  The value that \<open>JSON.parse\<close> hands to \<open>normalizeResponse\<close> is any JSON value. Numbers are
  modelled by their mathematical value (the code only compares them and divides by 100).
  An object is its list of members in document order; on duplicate keys \<open>JSON.parse\<close> keeps
  the last one. \<open>undefined\<close> (a missing property) is \<open>None\<close> of \<open>json option\<close>.
\<close>

datatype json =
    JNull
  | JBool bool
  | JNum real
  | JStr string
  | JArr "json list"
  | JObj "(string \<times> json) list"

text \<open>
  A thrown value: an instance of \<open>Error\<close> (\<open>TypeError\<close> and \<open>SyntaxError\<close> included) with its
  \<open>message\<close>, or any other value, carried as the text \<open>String(value)\<close> gives for it.
\<close>

datatype thrown = ErrorObj string | NonError string

text \<open>
  The functions of the JavaScript runtime that the code calls and the repository does not
  define: number formatting, \<open>String.prototype.toUpperCase\<close> (it maps every Unicode
  letter and may change the length of the text), the \<open>Date\<close> constructor (the time value in
  milliseconds; \<open>None\<close> is an Invalid Date, or a throw of the constructor, which the date
  block catches with the same outcome), \<open>Date.prototype.toISOString\<close> and \<open>JSON.parse\<close>.
\<close>

record runtime =
  numberToString :: "real \<Rightarrow> string"
  toUpperCase :: "string \<Rightarrow> string"
  newDate :: "json \<Rightarrow> int option"
  toISOString :: "int \<Rightarrow> string"
  jsonParse :: "string \<Rightarrow> thrown + json"

text \<open>
  Property read \<open>v.k\<close>: a \<open>TypeError\<close> on \<open>null\<close>, the member of an object, and
  \<open>undefined\<close> on numbers, booleans, strings and arrays for every key the code reads. The
  text of the \<open>TypeError\<close> is the engine's; it is given in the wording of V8, the property
  name between single quotes.
\<close>

definition typeError_null :: "string \<Rightarrow> thrown" where
  "typeError_null k =
     ErrorObj (''Cannot read properties of null (reading '' @ [CHR 0x27] @ k @ [CHR 0x27] @ '')'')"

fun getProp :: "json \<Rightarrow> string \<Rightarrow> thrown + json option" where
  "getProp JNull k = Inl (typeError_null k)"
| "getProp (JObj kvs) k = Inr (map_of (rev kvs) k)"
| "getProp (JBool b) k = Inr None"
| "getProp (JNum n) k = Inr None"
| "getProp (JStr s) k = Inr None"
| "getProp (JArr xs) k = Inr None"

text \<open>Optional chaining \<open>v?.k\<close> on a value that may be \<open>undefined\<close>.\<close>

fun getPropOpt :: "json option \<Rightarrow> string \<Rightarrow> json option" where
  "getPropOpt None k = None"
| "getPropOpt (Some JNull) k = None"
| "getPropOpt (Some (JObj kvs)) k = map_of (rev kvs) k"
| "getPropOpt (Some (JBool b)) k = None"
| "getPropOpt (Some (JNum n)) k = None"
| "getPropOpt (Some (JStr s)) k = None"
| "getPropOpt (Some (JArr xs)) k = None"

fun truthy :: "json \<Rightarrow> bool" where
  "truthy JNull = False"
| "truthy (JBool b) = b"
| "truthy (JNum n) = (n \<noteq> 0)"
| "truthy (JStr s) = (s \<noteq> [])"
| "truthy (JArr xs) = True"
| "truthy (JObj kvs) = True"

fun truthyU :: "json option \<Rightarrow> bool" where
  "truthyU None = False"
| "truthyU (Some v) = truthy v"

text \<open>\<open>v || null\<close>\<close>

fun orNull :: "json option \<Rightarrow> json" where
  "orNull None = JNull"
| "orNull (Some v) = (if truthy v then v else JNull)"

text \<open>
  \<open>String(v)\<close>, which a template literal and \<open>JSON.parse\<close> also apply to their operand.
  An object made by \<open>JSON.parse\<close> gives \<open>[object Object]\<close> through
  \<open>Object.prototype.toString\<close>, unless it has a member named \<open>toString\<close> of its own: that
  member is never callable, \<open>valueOf\<close> gives no primitive either, and the conversion throws
  a \<open>TypeError\<close>. An array joins the texts of its elements with commas, from left to right,
  \<open>null\<close> elements as empty text; the first element that throws ends it.
\<close>

fun js_String :: "(real \<Rightarrow> string) \<Rightarrow> json \<Rightarrow> thrown + string"
  and js_join :: "(real \<Rightarrow> string) \<Rightarrow> json list \<Rightarrow> thrown + string" where
  "js_String num JNull = Inr ''null''"
| "js_String num (JBool b) = Inr (if b then ''true'' else ''false'')"
| "js_String num (JNum n) = Inr (num n)"
| "js_String num (JStr s) = Inr s"
| "js_String num (JArr xs) = js_join num xs"
| "js_String num (JObj kvs) =
     (if map_of kvs ''toString'' = None then Inr ''[object Object]''
      else Inl (ErrorObj ''Cannot convert object to primitive value''))"
| "js_join num [] = Inr []"
| "js_join num (x # xs) =
     (case (if x = JNull then Inr [] else js_String num x) of
        Inl e \<Rightarrow> Inl e
      | Inr t \<Rightarrow>
          (if xs = [] then Inr t
           else (case js_join num xs of Inl e \<Rightarrow> Inl e | Inr rest \<Rightarrow> Inr (t @ '','' @ rest))))"

text \<open>Upper case of the ASCII letters, for the stand-in runtime below.\<close>

definition upper_char :: "char \<Rightarrow> char" where
  "upper_char c =
     (if 97 \<le> (of_char c :: nat) \<and> (of_char c :: nat) \<le> 122
      then char_of ((of_char c :: nat) - 32) else c)"

definition ascii_upper :: "string \<Rightarrow> string" where
  "ascii_upper s = map upper_char s"

section \<open>The extraction result\<close>

record LineItem =
  name :: string
  quantity :: "real option"
  price :: real

text \<open>
  \<open>GroqReceiptResponse\<close> as the code builds it. \<open>receipt_date\<close> may stay \<open>undefined\<close>
  (\<open>None\<close>); the text fields hold \<open>null\<close> or the truthy input value.
\<close>

record GroqReceiptResponse =
  merchant_name :: json
  receipt_date :: "json option"
  receipt_number :: json
  invoice_type :: string
  items :: "LineItem list"
  subtotal :: "real option"
  tax :: "real option"
  total :: "real option"
  currency :: string
  payment_method :: json
  confidence_score :: real
  error_message :: json

section \<open>normalizeResponse (services/groq-vision.ts)\<close>

definition validTypes :: "string list" where
  "validTypes = [''retail'', ''restaurant'', ''utility'', ''service'', ''unknown'']"

text \<open>\<open>validTypes.includes(response.invoice_type) ? response.invoice_type : 'unknown'\<close>\<close>

fun normalizeInvoiceType :: "json option \<Rightarrow> string" where
  "normalizeInvoiceType (Some (JStr s)) = (if List.member validTypes s then s else ''unknown'')"
| "normalizeInvoiceType v = ''unknown''"

text \<open>\<open>typeof v === 'number' ? v : null\<close>\<close>

fun numberOrNull :: "json option \<Rightarrow> real option" where
  "numberOrNull (Some (JNum n)) = Some n"
| "numberOrNull v = None"

text \<open>\<open>typeof v === 'number' ? v : 0\<close>\<close>

fun numberOrZero :: "json option \<Rightarrow> real" where
  "numberOrZero (Some (JNum n)) = n"
| "numberOrZero v = 0"

text \<open>
  The callback of \<open>response.items.map\<close>. Of what can throw, \<open>item.name\<close> is read first
  and \<open>String(...)\<close> is applied before the other two members are read; these cannot throw
  once the first read has succeeded.
\<close>

definition normalizeItem :: "runtime \<Rightarrow> json \<Rightarrow> thrown + LineItem" where
  "normalizeItem rt item =
     (case getProp item ''name'' of
        Inl e \<Rightarrow> Inl e
      | Inr nm \<Rightarrow>
     (case getProp item ''quantity'' of
        Inl e \<Rightarrow> Inl e
      | Inr q \<Rightarrow>
     (case getProp item ''price'' of
        Inl e \<Rightarrow> Inl e
      | Inr p \<Rightarrow>
     (case js_String (numberToString rt)
             (case nm of None \<Rightarrow> JStr ''Unknown Item''
              | Some v \<Rightarrow> if truthy v then v else JStr ''Unknown Item'') of
        Inl e \<Rightarrow> Inl e
      | Inr nameText \<Rightarrow>
          Inr \<lparr> name = nameText,
                 quantity = numberOrNull q,
                 price = numberOrZero p \<rparr>))))"

text \<open>\<open>Array.prototype.map\<close> with a callback that may throw: the first throw ends it.\<close>

fun mapE :: "('a \<Rightarrow> thrown + 'b) \<Rightarrow> 'a list \<Rightarrow> thrown + 'b list" where
  "mapE f [] = Inr []"
| "mapE f (x # xs) =
     (case f x of
        Inl e \<Rightarrow> Inl e
      | Inr y \<Rightarrow> (case mapE f xs of Inl e \<Rightarrow> Inl e | Inr ys \<Rightarrow> Inr (y # ys)))"

text \<open>\<open>Array.isArray(response.items) ? response.items.map(...) : []\<close>\<close>

fun normalizeItems :: "runtime \<Rightarrow> json option \<Rightarrow> thrown + LineItem list" where
  "normalizeItems rt (Some (JArr xs)) = mapE (normalizeItem rt) xs"
| "normalizeItems rt v = Inr []"

text \<open>
  The date block: a falsy \<open>receipt_date\<close> is left as it is; a truthy one becomes the text of
  \<open>toISOString()\<close> before its first \<open>T\<close> when the \<open>Date\<close> is valid, and \<open>null\<close> otherwise.
\<close>

definition normalizeDate :: "runtime \<Rightarrow> json option \<Rightarrow> json option" where
  "normalizeDate rt receiptDate =
     (if truthyU receiptDate then
        (case receiptDate of
           None \<Rightarrow> None
         | Some v \<Rightarrow>
             (case newDate rt v of
                Some t \<Rightarrow> Some (JStr (takeWhile (\<lambda>c. c \<noteq> CHR ''T'') (toISOString rt t)))
              | None \<Rightarrow> Some JNull))
      else receiptDate)"

text \<open>\<open>response.currency?.toUpperCase() || 'BDT'\<close>: only a string has \<open>toUpperCase\<close>.\<close>

fun normalizeCurrency :: "runtime \<Rightarrow> json option \<Rightarrow> thrown + string" where
  "normalizeCurrency rt None = Inr ''BDT''"
| "normalizeCurrency rt (Some JNull) = Inr ''BDT''"
| "normalizeCurrency rt (Some (JStr s)) =
     Inr (if toUpperCase rt s \<noteq> [] then toUpperCase rt s else ''BDT'')"
| "normalizeCurrency rt (Some v) =
     Inl (ErrorObj ''response.currency?.toUpperCase is not a function'')"

text \<open>The confidence block.\<close>

fun normalizeConfidence :: "json option \<Rightarrow> real" where
  "normalizeConfidence (Some (JNum c)) =
     (if c < 0 then 0
      else if c > 1 then (if c > 100 then 1 else c / 100)
      else c)"
| "normalizeConfidence v = 0"

text \<open>
  \<open>normalizeResponse\<close>. The first property read throws on \<open>null\<close>; once it has
  succeeded \<open>response\<close> is not \<open>null\<close> and the later reads cannot throw, so they are
  written with \<open>getPropOpt\<close>. The statements follow the order of the source: invoice type,
  items, date, currency, confidence, then the returned literal.
\<close>

definition normalizeResponse :: "runtime \<Rightarrow> json \<Rightarrow> thrown + GroqReceiptResponse" where
  "normalizeResponse rt response =
     (case getProp response ''invoice_type'' of
        Inl e \<Rightarrow> Inl e
      | Inr ty \<Rightarrow>
     (case normalizeItems rt (getPropOpt (Some response) ''items'') of
        Inl e \<Rightarrow> Inl e
      | Inr its \<Rightarrow>
     (case normalizeCurrency rt (getPropOpt (Some response) ''currency'') of
        Inl e \<Rightarrow> Inl e
      | Inr cur \<Rightarrow>
          Inr \<lparr> merchant_name = orNull (getPropOpt (Some response) ''merchant_name''),
                 receipt_date = normalizeDate rt (getPropOpt (Some response) ''receipt_date''),
                 receipt_number = orNull (getPropOpt (Some response) ''receipt_number''),
                 invoice_type = normalizeInvoiceType ty,
                 items = its,
                 subtotal = numberOrNull (getPropOpt (Some response) ''subtotal''),
                 tax = numberOrNull (getPropOpt (Some response) ''tax''),
                 total = numberOrNull (getPropOpt (Some response) ''total''),
                 currency = cur,
                 payment_method = orNull (getPropOpt (Some response) ''payment_method''),
                 confidence_score =
                   normalizeConfidence (getPropOpt (Some response) ''confidence_score''),
                 error_message = orNull (getPropOpt (Some response) ''error_message'') \<rparr>)))"

section \<open>Text of a natural number\<close>

text \<open>The decimal text of a non-negative integer inside a template literal.\<close>

definition digit_char :: "nat \<Rightarrow> char" where
  "digit_char d =
     (if d = 0 then CHR ''0'' else if d = 1 then CHR ''1'' else if d = 2 then CHR ''2''
      else if d = 3 then CHR ''3'' else if d = 4 then CHR ''4'' else if d = 5 then CHR ''5''
      else if d = 6 then CHR ''6'' else if d = 7 then CHR ''7'' else if d = 8 then CHR ''8''
      else CHR ''9'')"

fun show_nat :: "nat \<Rightarrow> string" where
  "show_nat n =
     (if n < 10 then [digit_char n]
      else show_nat (n div 10) @ [digit_char (n mod 10)])"

declare show_nat.simps [simp del]

section \<open>The world outside the process\<close>

record FileInfo =
  file_exists :: bool
  file_size :: "nat option"

record HttpResponse =
  ok :: bool
  status :: nat
  statusText :: string
  json_body :: "thrown + json"

text \<open>
  What the awaited external calls answer during one attempt: \<open>FileSystem.getInfoAsync\<close>,
  \<open>RNImage.getSize\<close> (success with width and height, or failure with an error),
  \<open>FileSystem.readAsStringAsync\<close> as base64, the environment variable
  \<open>EXPO_PUBLIC_GROQ_API_KEY\<close>, and \<open>fetch\<close> given the key and the base64 payload.
  \<open>Inl\<close> is a rejected promise.
\<close>

record world =
  getInfoAsync :: "string \<Rightarrow> thrown + FileInfo"
  getSize :: "string \<Rightarrow> thrown + nat \<times> nat"
  readAsStringAsync :: "string \<Rightarrow> thrown + string"
  apiKeyEnv :: "string option"
  fetch :: "string \<Rightarrow> string \<Rightarrow> thrown + HttpResponse"

section \<open>validateImage (services/groq-vision.ts)\<close>

record ValidationResult =
  valid :: bool
  error :: "string option"

text \<open>The \<open>catch\<close> of \<open>validateImage\<close>.\<close>

fun validateImage_caught :: "thrown \<Rightarrow> ValidationResult" where
  "validateImage_caught (ErrorObj m) = \<lparr> valid = False, error = Some m \<rparr>"
| "validateImage_caught (NonError s) = \<lparr> valid = False, error = Some ''Failed to validate image'' \<rparr>"

definition validateImage :: "world \<Rightarrow> string \<Rightarrow> ValidationResult" where
  "validateImage w imageUri =
     (case getInfoAsync w imageUri of
        Inl e \<Rightarrow> validateImage_caught e
      | Inr fileInfo \<Rightarrow>
          if \<not> file_exists fileInfo
          then \<lparr> valid = False, error = Some ''Image file not found'' \<rparr>
          else if (case file_size fileInfo of None \<Rightarrow> 0 | Some sz \<Rightarrow> sz) > 20 * 1024 * 1024
          then \<lparr> valid = False, error = Some ''Image file is too large (max 20MB)'' \<rparr>
          else
            (case getSize w imageUri of
               Inl e \<Rightarrow> validateImage_caught e
             | Inr (width, height) \<Rightarrow>
                 if width * height > 33177600
                 then \<lparr> valid = False,
                        error = Some ''Image resolution too high (max 33 megapixels)'' \<rparr>
                 else \<lparr> valid = True, error = None \<rparr>))"

section \<open>processImageForUpload and parseReceipt (services/groq-vision.ts)\<close>

definition MAX_BASE64_SIZE :: real where
  "MAX_BASE64_SIZE = 4 * 1024 * 1024"

definition MAX_IMAGE_DIMENSION :: nat where
  "MAX_IMAGE_DIMENSION = 2048"

text \<open>\<open>Math.round\<close> on a non-negative number.\<close>

definition js_round :: "real \<Rightarrow> nat" where
  "js_round x = nat \<lfloor>x + 1 / 2\<rfloor>"

record ImageProcessingResult =
  uri :: string
  base64 :: string
  width :: nat
  height :: nat
  fileSize :: real

definition processImageForUpload :: "world \<Rightarrow> string \<Rightarrow> thrown + ImageProcessingResult" where
  "processImageForUpload w imageUri =
     (case getInfoAsync w imageUri of
        Inl e \<Rightarrow> Inl e
      | Inr fileInfo \<Rightarrow>
          if \<not> file_exists fileInfo then Inl (ErrorObj ''Image file not found'')
          else
            (case getSize w imageUri of
               Inl e \<Rightarrow> Inl e
             | Inr (width0, height0) \<Rightarrow>
                 (case readAsStringAsync w imageUri of
                    Inl e \<Rightarrow> Inl e
                  | Inr b64 \<Rightarrow>
                      let maxDimension = max width0 height0;
                          resizeRatio = real MAX_IMAGE_DIMENSION / real maxDimension;
                          base64Size = real (length b64) * 0.75
                      in if base64Size > MAX_BASE64_SIZE
                         then Inl (ErrorObj (''Image too large (''
                                @ show_nat (js_round (base64Size / 1024 / 1024))
                                @ ''MB). Maximum size is 4MB. Please use a smaller image.''))
                         else Inr \<lparr> uri = imageUri,
                                    base64 = b64,
                                    width = (if maxDimension > MAX_IMAGE_DIMENSION
                                             then js_round (real width0 * resizeRatio) else width0),
                                    height = (if maxDimension > MAX_IMAGE_DIMENSION
                                              then js_round (real height0 * resizeRatio) else height0),
                                    fileSize = base64Size \<rparr>)))"

definition getApiKey :: "world \<Rightarrow> thrown + string" where
  "getApiKey w =
     (case apiKeyEnv w of
        None \<Rightarrow> Inl (ErrorObj
          ''GROQ_API_KEY not found. Please set EXPO_PUBLIC_GROQ_API_KEY or GROQ_API_KEY.'')
      | Some k \<Rightarrow>
          if k = [] then Inl (ErrorObj
            ''GROQ_API_KEY not found. Please set EXPO_PUBLIC_GROQ_API_KEY or GROQ_API_KEY.'')
          else Inr k)"

text \<open>\<open>v?.[0]\<close>\<close>

fun index0 :: "json option \<Rightarrow> json option" where
  "index0 (Some (JArr xs)) = (case xs of [] \<Rightarrow> None | x # rest \<Rightarrow> Some x)"
| "index0 (Some (JObj kvs)) = map_of (rev kvs) ''0''"
| "index0 (Some (JStr s)) = (case s of [] \<Rightarrow> None | c # rest \<Rightarrow> Some (JStr [c]))"
| "index0 v = None"

text \<open>The two object literals that report a failure differ in the message only.\<close>

definition failureResponse :: "string \<Rightarrow> GroqReceiptResponse" where
  "failureResponse msg =
     \<lparr> merchant_name = JNull,
       receipt_date = Some JNull,
       receipt_number = JNull,
       invoice_type = ''unknown'',
       items = [],
       subtotal = None,
       tax = None,
       total = None,
       currency = ''BDT'',
       payment_method = JNull,
       confidence_score = 0,
       error_message = JStr msg \<rparr>"

text \<open>The \<open>try\<close> block of \<open>parseReceipt\<close>.\<close>

definition parseReceipt_try :: "runtime \<Rightarrow> world \<Rightarrow> string \<Rightarrow> thrown + GroqReceiptResponse" where
  "parseReceipt_try rt w imageUri =
     (case processImageForUpload w imageUri of
        Inl e \<Rightarrow> Inl e
      | Inr processedImage \<Rightarrow>
     (case getApiKey w of
        Inl e \<Rightarrow> Inl e
      | Inr apiKey \<Rightarrow>
     (case fetch w apiKey (base64 processedImage) of
        Inl e \<Rightarrow> Inl e
      | Inr response \<Rightarrow>
          if \<not> ok response then
            (case getProp (case json_body response of Inl e \<Rightarrow> JObj [] | Inr d \<Rightarrow> d) ''error'' of
               Inl e \<Rightarrow> Inl e
             | Inr err \<Rightarrow>
                 (case (case getPropOpt err ''message'' of
                          None \<Rightarrow> Inr (statusText response)
                        | Some m \<Rightarrow> if truthy m then js_String (numberToString rt) m
                                    else Inr (statusText response)) of
                    Inl e \<Rightarrow> Inl e
                  | Inr detail \<Rightarrow>
                      Inl (ErrorObj (''Groq API error: '' @ show_nat (status response)
                             @ '' - '' @ detail))))
          else
            (case json_body response of
               Inl e \<Rightarrow> Inl e
             | Inr data \<Rightarrow>
            (case getProp data ''choices'' of
               Inl e \<Rightarrow> Inl e
             | Inr choices \<Rightarrow>
            (case getPropOpt (getPropOpt (index0 choices) ''message'') ''content'' of
               None \<Rightarrow> Inl (ErrorObj ''No response from Groq API'')
             | Some content \<Rightarrow>
                 if \<not> truthy content then Inl (ErrorObj ''No response from Groq API'')
                 else
                   (case js_String (numberToString rt) content of
                      Inl e \<Rightarrow> Inl e
                    | Inr contentText \<Rightarrow>
                        (case jsonParse rt contentText of
                           Inl e \<Rightarrow> Inl e
                         | Inr parsed \<Rightarrow> normalizeResponse rt parsed))))))))"

text \<open>\<open>error instanceof Error ? error.message : 'Unknown error occurred'\<close>\<close>

fun parseReceipt_message :: "thrown \<Rightarrow> string" where
  "parseReceipt_message (ErrorObj m) = m"
| "parseReceipt_message (NonError s) = ''Unknown error occurred''"

text \<open>\<open>parseReceipt\<close>: the \<open>try\<close> block, and the \<open>catch\<close> that returns the failure literal.\<close>

definition parseReceipt :: "runtime \<Rightarrow> world \<Rightarrow> string \<Rightarrow> thrown + GroqReceiptResponse" where
  "parseReceipt rt w imageUri =
     (case parseReceipt_try rt w imageUri of
        Inl e \<Rightarrow> Inr (failureResponse (parseReceipt_message e))
      | Inr r \<Rightarrow> Inr r)"

section \<open>parseReceiptWithRetry (services/groq-vision.ts)\<close>

text \<open>What an observer sees: the start of an attempt, and a \<open>setTimeout\<close> wait in milliseconds.\<close>

datatype event = Attempt nat | Sleep nat

text \<open>\<open>error instanceof Error ? error : new Error(String(error))\<close>, by its message.\<close>

fun toError_message :: "thrown \<Rightarrow> string" where
  "toError_message (ErrorObj m) = m"
| "toError_message (NonError s) = s"

text \<open>\<open>lastError?.message\<close> inside the template literal.\<close>

fun lastError_text :: "string option \<Rightarrow> string" where
  "lastError_text None = ''undefined''"
| "lastError_text (Some m) = m"

text \<open>
  The \<open>for\<close> loop and the final \<open>return\<close>. \<open>attemptOp n\<close> is how the awaited call of
  attempt \<open>n\<close> settles; \<open>lastError\<close> holds the message of the last error; the trace grows
  in the order of the events.
\<close>

function retryLoop ::
  "(nat \<Rightarrow> thrown + GroqReceiptResponse) \<Rightarrow> nat \<Rightarrow> nat \<Rightarrow> string option \<Rightarrow> event list
     \<Rightarrow> (thrown + GroqReceiptResponse) \<times> event list" where
  "retryLoop attemptOp maxRetries attempt lastError trace =
     (if attempt \<le> maxRetries then
        (case attemptOp attempt of
           Inr result \<Rightarrow>
             if total result \<noteq> None \<or> truthy (error_message result)
             then (Inr result, trace @ [Attempt attempt])
             else retryLoop attemptOp maxRetries (attempt + 1)
                    (Some ''Failed to extract receipt total'') (trace @ [Attempt attempt])
         | Inl err \<Rightarrow>
             retryLoop attemptOp maxRetries (attempt + 1) (Some (toError_message err))
               (trace @ [Attempt attempt]
                  @ (if attempt < maxRetries then [Sleep (2 ^ attempt * 1000)] else [])))
      else (Inr (failureResponse (''Failed after '' @ show_nat maxRetries @ '' attempts: ''
                   @ lastError_text lastError)), trace))"
  by pat_completeness auto
termination
  by (relation "measure (\<lambda>(attemptOp, maxRetries, attempt, lastError, trace).
        maxRetries + 1 - attempt)") auto

declare retryLoop.simps [simp del]

text \<open>The body of \<open>parseReceiptWithRetry\<close> over any per-attempt operation.\<close>

definition parseReceiptWithRetryOn ::
  "(nat \<Rightarrow> thrown + GroqReceiptResponse) \<Rightarrow> nat
     \<Rightarrow> (thrown + GroqReceiptResponse) \<times> event list" where
  "parseReceiptWithRetryOn attemptOp maxRetries = retryLoop attemptOp maxRetries 1 None []"

text \<open>\<open>parseReceiptWithRetry\<close> as written: every attempt awaits \<open>parseReceipt(imageUri)\<close>, in
  the world as it is during that attempt.\<close>

definition parseReceiptWithRetry ::
  "runtime \<Rightarrow> (nat \<Rightarrow> world) \<Rightarrow> string \<Rightarrow> nat
     \<Rightarrow> (thrown + GroqReceiptResponse) \<times> event list" where
  "parseReceiptWithRetry rt worlds imageUri maxRetries =
     parseReceiptWithRetryOn (\<lambda>attempt. parseReceipt rt (worlds attempt) imageUri) maxRetries"

section \<open>Record assembly (capture screen and services/storage.ts)\<close>

record ReceiptInput =
  merchant_name :: json
  receipt_date :: "json option"
  receipt_number :: json
  invoice_type :: string
  items :: "LineItem list"
  subtotal :: "real option"
  tax :: "real option"
  total :: real
  currency :: string
  payment_method :: json
  confidence_score :: real
  image_uri :: string
  raw_text :: json
  error_message :: json

text \<open>\<open>Receipt\<close> is \<open>{...input, id, created_at}\<close>.\<close>

record Receipt = ReceiptInput +
  id :: string
  created_at :: string

text \<open>\<open>v ?? d\<close> on a value that is never \<open>undefined\<close>.\<close>

fun nullish_json :: "json \<Rightarrow> json \<Rightarrow> json" where
  "nullish_json JNull d = d"
| "nullish_json v d = v"

text \<open>
  The \<open>receiptInput\<close> literal of \<open>handleCapture\<close>. The result objects of
  \<open>parseReceiptWithRetry\<close> carry no \<open>raw_text\<close>, so \<open>result.raw_text ?? null\<close> is \<open>null\<close>.
\<close>

definition handleCapture_receiptInput :: "GroqReceiptResponse \<Rightarrow> string \<Rightarrow> ReceiptInput" where
  "handleCapture_receiptInput result imageUri =
     \<lparr> merchant_name = GroqReceiptResponse.merchant_name result,
       receipt_date = GroqReceiptResponse.receipt_date result,
       receipt_number = GroqReceiptResponse.receipt_number result,
       invoice_type = GroqReceiptResponse.invoice_type result,
       items = GroqReceiptResponse.items result,
       subtotal = GroqReceiptResponse.subtotal result,
       tax = GroqReceiptResponse.tax result,
       total = (case GroqReceiptResponse.total result of None \<Rightarrow> 0 | Some t \<Rightarrow> t),
       currency = GroqReceiptResponse.currency result,
       payment_method = GroqReceiptResponse.payment_method result,
       confidence_score = GroqReceiptResponse.confidence_score result,
       image_uri = imageUri,
       raw_text = JNull,
       error_message = nullish_json (GroqReceiptResponse.error_message result) JNull \<rparr>"

text \<open>
  What \<open>createReceipt\<close> reads from outside: whether \<open>getDb\<close> and \<open>runAsync\<close> reject, the
  clock at \<open>Date.now()\<close> and at \<open>new Date()\<close>, and the text of \<open>Math.random().toString(36)\<close>.
\<close>

record storage =
  getDb_rejects :: "thrown option"
  date_now :: nat
  random_base36 :: string
  new_date :: int
  runAsync_rejects :: "thrown option"

text \<open>\<open>receipt_${Date.now()}_${Math.random().toString(36).substring(2, 9)}\<close>\<close>

definition generateId :: "storage \<Rightarrow> string" where
  "generateId st =
     ''receipt_'' @ show_nat (date_now st) @ ''_'' @ take 7 (drop 2 (random_base36 st))"

definition createReceipt :: "runtime \<Rightarrow> storage \<Rightarrow> ReceiptInput \<Rightarrow> thrown + Receipt" where
  "createReceipt rt st input =
     (case getDb_rejects st of
        Some e \<Rightarrow> Inl e
      | None \<Rightarrow>
          (case runAsync_rejects st of
             Some e \<Rightarrow> Inl e
           | None \<Rightarrow>
               Inr (ReceiptInput.extend input
                      (Receipt.fields (generateId st) (toISOString rt (new_date st))))))"

text \<open>A stand-in for the runtime, to run the definitions on concrete inputs.\<close>

definition stubRuntime :: runtime where
  "stubRuntime =
     \<lparr> numberToString = (\<lambda>n. ''0''),
       toUpperCase = ascii_upper,
       newDate = (\<lambda>v. None),
       toISOString = (\<lambda>t. ''1970-01-01T00:00:00.000Z''),
       jsonParse = (\<lambda>s. if s = ''{}'' then Inr (JObj [])
                          else Inl (ErrorObj ''JSON Parse error'')) \<rparr>"

section \<open>Predicates and concrete inputs used by the statements\<close>

text \<open>The \<open>currency\<close> member is missing, \<open>null\<close> or a string.\<close>

fun currency_is_text_or_absent :: "json option \<Rightarrow> bool" where
  "currency_is_text_or_absent None = True"
| "currency_is_text_or_absent (Some JNull) = True"
| "currency_is_text_or_absent (Some (JStr s)) = True"
| "currency_is_text_or_absent (Some v) = False"

text \<open>
  Neither the value nor, inside arrays, any of its elements is an object with a member named
  \<open>toString\<close>.
\<close>

fun has_text :: "json \<Rightarrow> bool" where
  "has_text (JArr xs) = list_all has_text xs"
| "has_text (JObj kvs) = (map_of kvs ''toString'' = None)"
| "has_text v = True"

text \<open>An element of \<open>items\<close> that is not \<open>null\<close> and whose \<open>name\<close>, if any, has a text.\<close>

definition item_is_readable :: "json \<Rightarrow> bool" where
  "item_is_readable x =
     (x \<noteq> JNull \<and>
      (case getPropOpt (Some x) ''name'' of None \<Rightarrow> True | Some v \<Rightarrow> has_text v))"

text \<open>The \<open>items\<close> member, when an array, has readable elements only.\<close>

fun items_are_readable :: "json option \<Rightarrow> bool" where
  "items_are_readable (Some (JArr xs)) = list_all item_is_readable xs"
| "items_are_readable v = True"

text \<open>\<open>v || null\<close> in the words of the data model: \<open>null\<close>, or the input value when truthy.\<close>

fun truthy_or_null :: "json option \<Rightarrow> json \<Rightarrow> bool" where
  "truthy_or_null None out = (out = JNull)"
| "truthy_or_null (Some v) out = (if truthy v then out = v else out = JNull)"

text \<open>The data model's wording for \<open>quantity\<close>: \<open>null\<close> or a non-negative number.\<close>

definition quantityNonNegative :: "LineItem \<Rightarrow> bool" where
  "quantityNonNegative li = (case quantity li of None \<Rightarrow> True | Some q \<Rightarrow> 0 \<le> q)"


text \<open>
  A world with a 5 MB image of 7680 x 4320 pixels, an API key, and a network that is down;
  and variants of it.
\<close>

definition world_8k :: world where
  "world_8k =
     \<lparr> getInfoAsync = (\<lambda>u. Inr \<lparr> file_exists = True, file_size = Some 5000000 \<rparr>),
       getSize = (\<lambda>u. Inr (7680, 4320)),
       readAsStringAsync = (\<lambda>u. Inr ''AAAA''),
       apiKeyEnv = Some ''gsk_test'',
       fetch = (\<lambda>k b. Inl (ErrorObj ''Network request failed'')) \<rparr>"

definition world_one_pixel_over :: world where
  "world_one_pixel_over = world_8k \<lparr> getSize := (\<lambda>u. Inr (33177601, 1)) \<rparr>"



definition same_world :: "world \<Rightarrow> nat \<Rightarrow> world" where
  "same_world w attempt = w"

definition always_throws :: "nat \<Rightarrow> thrown + GroqReceiptResponse" where
  "always_throws attempt = Inl (ErrorObj ''Network request failed'')"

definition stubStorage :: storage where
  "stubStorage =
     \<lparr> getDb_rejects = None,
       date_now = 1762153200000,
       random_base36 = ''0.k3j9x2m1pq'',
       new_date = 1762153200000,
       runAsync_rejects = None \<rparr>"

section \<open>Facts about normalizeResponse\<close>

lemma getPropOpt_getProp: "getProp v k = Inr r \<Longrightarrow> getPropOpt (Some v) k = r"
  by (cases v) auto

lemma getProp_not_null: "v \<noteq> JNull \<Longrightarrow> getProp v k = Inr (getPropOpt (Some v) k)"
  by (cases v) auto

lemma normalizeConfidence_range: "0 \<le> normalizeConfidence v \<and> normalizeConfidence v \<le> 1"
  by (induction v rule: normalizeConfidence.induct) auto

lemma normalizeResponse_fields:
  assumes "normalizeResponse rt response = Inr res"
  shows "response \<noteq> JNull"
    and "normalizeItems rt (getPropOpt (Some response) ''items'') =
           Inr (GroqReceiptResponse.items res)"
    and "normalizeCurrency rt (getPropOpt (Some response) ''currency'') =
           Inr (GroqReceiptResponse.currency res)"
    and "GroqReceiptResponse.confidence_score res =
           normalizeConfidence (getPropOpt (Some response) ''confidence_score'')"
    and "GroqReceiptResponse.receipt_date res =
           normalizeDate rt (getPropOpt (Some response) ''receipt_date'')"
  using assms by (auto simp: normalizeResponse_def split: sum.splits)

lemma js_String_has_text:
  "has_text v \<Longrightarrow> \<exists>t. js_String num v = Inr t"
  "list_all has_text xs \<Longrightarrow> \<exists>t. js_join num xs = Inr t"
proof (induction num v and num xs rule: js_String_js_join.induct)
  case (8 num x xs)
  then obtain t where t: "(if x = JNull then Inr [] else js_String num x) = Inr t"
    by (cases "x = JNull") auto
  show ?case
  proof (cases "xs = []")
    case True
    with t show ?thesis by simp
  next
    case False
    with "8.IH"(2) "8.prems" t obtain rest where "js_join num xs = Inr rest" by auto
    with t False show ?thesis by simp
  qed
qed simp_all

lemma normalizeItem_defined:
  "item_is_readable item \<Longrightarrow> \<exists>li. normalizeItem rt item = Inr li"
proof -
  assume r: "item_is_readable item"
  then have nn: "item \<noteq> JNull" by (simp add: item_is_readable_def)
  have "has_text (case getPropOpt (Some item) ''name'' of None \<Rightarrow> JStr ''Unknown Item''
                  | Some v \<Rightarrow> if truthy v then v else JStr ''Unknown Item'')"
    using r by (auto simp: item_is_readable_def split: option.splits)
  then obtain t where "js_String (numberToString rt)
        (case getPropOpt (Some item) ''name'' of None \<Rightarrow> JStr ''Unknown Item''
         | Some v \<Rightarrow> if truthy v then v else JStr ''Unknown Item'') = Inr t"
    using js_String_has_text(1) by blast
  then show ?thesis
    using nn by (simp add: normalizeItem_def getProp_not_null)
qed

lemma mapE_normalizeItem_defined:
  "list_all item_is_readable xs \<Longrightarrow> \<exists>its. mapE (normalizeItem rt) xs = Inr its"
proof (induction xs)
  case Nil
  then show ?case by simp
next
  case (Cons x xs)
  then obtain its where "mapE (normalizeItem rt) xs = Inr its" by auto
  moreover obtain li where "normalizeItem rt x = Inr li"
    using Cons.prems normalizeItem_defined by fastforce
  ultimately show ?case by simp
qed

lemma normalizeItems_defined:
  "items_are_readable v \<Longrightarrow> \<exists>its. normalizeItems rt v = Inr its"
  by (induction v rule: items_are_readable.induct) (auto simp: mapE_normalizeItem_defined)

lemma normalizeCurrency_defined:
  "currency_is_text_or_absent v \<Longrightarrow> \<exists>cur. normalizeCurrency rt v = Inr cur \<and> cur \<noteq> []"
  by (induction v rule: currency_is_text_or_absent.induct) auto

lemma normalizeInvoiceType_valid: "normalizeInvoiceType v \<in> set validTypes"
  by (induction v rule: normalizeInvoiceType.induct) (auto simp: validTypes_def)

lemma orNull_truthy_or_null: "truthy_or_null v (orNull v)"
  by (cases v) auto

lemma mapE_normalizeItem_quantity:
  "mapE (normalizeItem rt) xs = Inr its \<Longrightarrow>
   map quantity its = map (\<lambda>x. numberOrNull (getPropOpt (Some x) ''quantity'')) xs"
proof (induction xs arbitrary: its)
  case Nil
  then show ?case by simp
next
  case (Cons x xs)
  then show ?case
    by (auto simp: normalizeItem_def getPropOpt_getProp split: sum.splits)
qed

lemma normalizeResponse_confidence_only:
  "\<exists>res. normalizeResponse rt (JObj [(''confidence_score'', v)]) = Inr res"
  by (simp add: normalizeResponse_def)

subsection \<open>C1: totality of the Response Normalizer\<close>

text \<open>
  C1 says that \<open>normalizeResponse\<close> returns a well-formed result and never throws, for every
  JSON value, \<open>null\<close> included. On \<open>null\<close> the first property read,
  \<open>response.invoice_type\<close>, throws a \<open>TypeError\<close>.
\<close>

theorem normalizeResponse_null_throws:
  "normalizeResponse stubRuntime JNull = Inl (typeError_null ''invoice_type'')"
  by (simp add: normalizeResponse_def)

text \<open>
  C1, amended: for every JSON value other than \<open>null\<close> (numbers, strings, booleans, arrays,
  objects with missing or wrong-typed members) whose \<open>currency\<close> is missing, \<open>null\<close> or a
  string and whose \<open>items\<close>, when an array, has no \<open>null\<close> element and no element whose
  \<open>name\<close> is, or holds inside arrays, an object with a member named \<open>toString\<close>,
  \<open>normalizeResponse\<close> returns without throwing. The result has an \<open>invoice_type\<close> of the
  enumeration, one line item for each element of \<open>items\<close>, a non-empty \<open>currency\<close>, a
  \<open>confidence_score\<close> in [0,1], and each of \<open>merchant_name\<close>, \<open>receipt_number\<close>,
  \<open>payment_method\<close> and \<open>error_message\<close> is the input value when that is truthy and
  \<open>null\<close> otherwise. (A text name, a number-or-null quantity and a numeric price for each
  line item, and number-or-null \<open>subtotal\<close>, \<open>tax\<close> and \<open>total\<close>, hold by the type of the
  result.)
\<close>

theorem normalizeResponse_defined:
  assumes "response \<noteq> JNull"
      and "currency_is_text_or_absent (getPropOpt (Some response) ''currency'')"
      and "items_are_readable (getPropOpt (Some response) ''items'')"
  shows "\<exists>res. normalizeResponse rt response = Inr res \<and>
           GroqReceiptResponse.invoice_type res \<in> set validTypes \<and>
           length (GroqReceiptResponse.items res) =
             (case getPropOpt (Some response) ''items'' of
                Some (JArr xs) \<Rightarrow> length xs | _ \<Rightarrow> 0) \<and>
           GroqReceiptResponse.currency res \<noteq> [] \<and>
           0 \<le> GroqReceiptResponse.confidence_score res \<and>
           GroqReceiptResponse.confidence_score res \<le> 1 \<and>
           truthy_or_null (getPropOpt (Some response) ''merchant_name'')
             (GroqReceiptResponse.merchant_name res) \<and>
           truthy_or_null (getPropOpt (Some response) ''receipt_number'')
             (GroqReceiptResponse.receipt_number res) \<and>
           truthy_or_null (getPropOpt (Some response) ''payment_method'')
             (GroqReceiptResponse.payment_method res) \<and>
           truthy_or_null (getPropOpt (Some response) ''error_message'')
             (GroqReceiptResponse.error_message res)"
proof -
  obtain its where its: "normalizeItems rt (getPropOpt (Some response) ''items'') = Inr its"
    using assms(3) normalizeItems_defined by blast
  have len: "length its =
      (case getPropOpt (Some response) ''items'' of Some (JArr xs) \<Rightarrow> length xs | _ \<Rightarrow> 0)"
  proof (cases "\<exists>xs. getPropOpt (Some response) ''items'' = Some (JArr xs)")
    case True
    then obtain xs where xs: "getPropOpt (Some response) ''items'' = Some (JArr xs)" by blast
    with its have "mapE (normalizeItem rt) xs = Inr its" by simp
    then have "map quantity its =
        map (\<lambda>x. numberOrNull (getPropOpt (Some x) ''quantity'')) xs"
      by (rule mapE_normalizeItem_quantity)
    then have "length its = length xs" by (metis length_map)
    then show ?thesis using xs by simp
  next
    case False
    then have "normalizeItems rt (getPropOpt (Some response) ''items'') = Inr []"
      by (cases "(rt, getPropOpt (Some response) ''items'')" rule: normalizeItems.cases) auto
    with its have "its = []" by simp
    then show ?thesis using False by (auto split: option.splits json.splits)
  qed
  obtain cur where cur: "normalizeCurrency rt (getPropOpt (Some response) ''currency'') = Inr cur"
    and ne: "cur \<noteq> []"
    using assms(2) normalizeCurrency_defined by blast
  show ?thesis
    using assms(1) its cur ne len
    by (simp add: normalizeResponse_def getProp_not_null normalizeInvoiceType_valid
        normalizeConfidence_range orNull_truthy_or_null)
qed

theorem normalizeResponse_defined_witness:
  "JArr [JNum 7] \<noteq> JNull \<and>
   currency_is_text_or_absent
     (getPropOpt (Some (JObj [(''currency'', JStr ''usd''), (''merchant_name'', JNum 5),
                              (''items'', JArr [JNum 3, JObj [(''name'', JArr [JStr ''tea'']) ]])]))
        ''currency'') \<and>
   items_are_readable
     (getPropOpt (Some (JObj [(''currency'', JStr ''usd''), (''merchant_name'', JNum 5),
                              (''items'', JArr [JNum 3, JObj [(''name'', JArr [JStr ''tea'']) ]])]))
        ''items'') \<and>
   (\<exists>res. normalizeResponse stubRuntime
             (JObj [(''currency'', JStr ''usd''), (''merchant_name'', JNum 5),
                    (''items'', JArr [JNum 3, JObj [(''name'', JArr [JStr ''tea'']) ]])])
             = Inr res \<and>
      length (GroqReceiptResponse.items res) = 2 \<and>
      GroqReceiptResponse.currency res \<noteq> [] \<and>
      GroqReceiptResponse.confidence_score res \<le> 1 \<and>
      GroqReceiptResponse.merchant_name res = JNum 5 \<and>
      GroqReceiptResponse.error_message res = JNull) \<and>
   (\<exists>res. normalizeResponse stubRuntime (JArr [JNum 7]) = Inr res \<and>
      GroqReceiptResponse.invoice_type res \<in> set validTypes)"
  using normalizeResponse_defined
      [of "JObj [(''currency'', JStr ''usd''), (''merchant_name'', JNum 5),
                 (''items'', JArr [JNum 3, JObj [(''name'', JArr [JStr ''tea'']) ]])]"
        stubRuntime]
    normalizeResponse_defined [of "JArr [JNum 7]" stubRuntime]
  by (auto simp: item_is_readable_def)

subsection \<open>C2: the confidence score\<close>

text \<open>
  C2: whenever \<open>normalizeResponse\<close> returns, with \<open>v\<close> the value given as
  \<open>confidence_score\<close>, the normalized score lies in [0,1]; it is 0 when \<open>v\<close> is not a number
  or is negative, \<open>v\<close> itself when \<open>0 \<le> v \<le> 1\<close>, \<open>v / 100\<close> when \<open>1 < v \<le> 100\<close>, and 1
  when \<open>v > 100\<close>.
\<close>

theorem confidence_score_normalized:
  assumes "normalizeResponse rt response = Inr res"
      and "getProp response ''confidence_score'' = Inr v"
  shows "0 \<le> GroqReceiptResponse.confidence_score res \<and>
         GroqReceiptResponse.confidence_score res \<le> 1 \<and>
         ((\<nexists>n. v = Some (JNum n)) \<longrightarrow> GroqReceiptResponse.confidence_score res = 0) \<and>
         (\<forall>n. v = Some (JNum n) \<longrightarrow>
            (n < 0 \<longrightarrow> GroqReceiptResponse.confidence_score res = 0) \<and>
            (0 \<le> n \<and> n \<le> 1 \<longrightarrow> GroqReceiptResponse.confidence_score res = n) \<and>
            (1 < n \<and> n \<le> 100 \<longrightarrow> GroqReceiptResponse.confidence_score res = n / 100) \<and>
            (100 < n \<longrightarrow> GroqReceiptResponse.confidence_score res = 1))"
proof -
  have cs: "GroqReceiptResponse.confidence_score res = normalizeConfidence v"
    using assms by (simp add: normalizeResponse_fields(4) getPropOpt_getProp)
  show ?thesis
    unfolding cs by (induction v rule: normalizeConfidence.induct) auto
qed

text \<open>The five examples of C2: 0.92, 150, 75, -1 and the string "high".\<close>

theorem confidence_score_normalized_witness:
  "map (\<lambda>v. map_sum parseReceipt_message GroqReceiptResponse.confidence_score
              (normalizeResponse stubRuntime (JObj [(''confidence_score'', v)])))
     [JNum 0.92, JNum 150, JNum 75, JNum (- 1), JStr ''high'']
   = [Inr 0.92, Inr 1, Inr 0.75, Inr 0, Inr 0]"
proof -
  have r: "\<exists>res. normalizeResponse stubRuntime (JObj [(''confidence_score'', v)]) = Inr res" for v
    by (simp add: normalizeResponse_confidence_only)
  have g: "getProp (JObj [(''confidence_score'', v)]) ''confidence_score'' = Inr (Some v)" for v
    by simp
  have c: "normalizeResponse stubRuntime (JObj [(''confidence_score'', v)]) = Inr res \<Longrightarrow>
      (v = JNum n \<and> 0 \<le> n \<and> n \<le> 1 \<longrightarrow> GroqReceiptResponse.confidence_score res = n) \<and>
      (v = JNum n \<and> 1 < n \<and> n \<le> 100 \<longrightarrow> GroqReceiptResponse.confidence_score res = n / 100) \<and>
      (v = JNum n \<and> 100 < n \<longrightarrow> GroqReceiptResponse.confidence_score res = 1) \<and>
      (v = JNum n \<and> n < 0 \<longrightarrow> GroqReceiptResponse.confidence_score res = 0) \<and>
      (v = JStr s \<longrightarrow> GroqReceiptResponse.confidence_score res = 0)" for v res n s
    using confidence_score_normalized
      [of stubRuntime "JObj [(''confidence_score'', v)]" res "Some v"] g
    by auto
  obtain r1 where r1:
    "normalizeResponse stubRuntime (JObj [(''confidence_score'', JNum 0.92)]) = Inr r1"
    using r by blast
  obtain r2 where r2:
    "normalizeResponse stubRuntime (JObj [(''confidence_score'', JNum 150)]) = Inr r2"
    using r by blast
  obtain r3 where r3:
    "normalizeResponse stubRuntime (JObj [(''confidence_score'', JNum 75)]) = Inr r3"
    using r by blast
  obtain r4 where r4:
    "normalizeResponse stubRuntime (JObj [(''confidence_score'', JNum (- 1))]) = Inr r4"
    using r by blast
  obtain r5 where r5:
    "normalizeResponse stubRuntime (JObj [(''confidence_score'', JStr ''high'')]) = Inr r5"
    using r by blast
  have "GroqReceiptResponse.confidence_score r1 = 0.92" using c[OF r1, of "0.92"] by simp
  moreover have "GroqReceiptResponse.confidence_score r2 = 1" using c[OF r2, of "150"] by simp
  moreover have "GroqReceiptResponse.confidence_score r3 = 0.75" using c[OF r3, of "75"] by simp
  moreover have "GroqReceiptResponse.confidence_score r4 = 0" using c[OF r4, of "- 1"] by simp
  moreover have "GroqReceiptResponse.confidence_score r5 = 0"
    using c[OF r5, of _ "''high''"] by simp
  ultimately show ?thesis
    using r1 r2 r3 r4 r5 by simp
qed

subsection \<open>C5: the receipt date\<close>

text \<open>
  C5 says that an absent or unparseable \<open>receipt_date\<close> normalizes to \<open>null\<close>. The empty
  string is falsy, so the date block is skipped and the empty string is returned as it is,
  whatever the runtime's \<open>Date\<close> does.
\<close>

theorem receipt_date_empty_text_kept:
  "map_sum parseReceipt_message GroqReceiptResponse.receipt_date
     (normalizeResponse stubRuntime (JObj [(''receipt_date'', JStr [])])) = Inr (Some (JStr []))"
  by (simp add: normalizeResponse_def normalizeDate_def)

subsection \<open>C9: line item quantities\<close>

text \<open>
  C9 says that every normalized quantity is \<open>null\<close> or a non-negative number. A negative
  number is a number, and \<open>normalizeResponse\<close> passes it through.
\<close>

theorem quantity_negative_kept:
  "map_sum parseReceipt_message (map quantity \<circ> GroqReceiptResponse.items)
     (normalizeResponse stubRuntime
        (JObj [(''items'', JArr [JObj [(''quantity'', JNum (- 1))]])]))
     = Inr [Some (- 1)] \<and>
   \<not> quantityNonNegative \<lparr> name = ''Unknown Item'', quantity = Some (- 1), price = 0 \<rparr>"
  by (simp add: normalizeResponse_def normalizeItem_def quantityNonNegative_def)

text \<open>
  C9, amended: whenever \<open>normalizeResponse\<close> returns, the quantities of the normalized items
  are, in order, the \<open>quantity\<close> of each input element when that is a number (of either
  sign) and \<open>null\<close> otherwise; there are no items when \<open>items\<close> is not an array.
\<close>

theorem quantity_passes_numbers:
  assumes "normalizeResponse rt response = Inr res"
  shows "map quantity (GroqReceiptResponse.items res) =
           (case getPropOpt (Some response) ''items'' of
              Some (JArr xs) \<Rightarrow> map (\<lambda>x. numberOrNull (getPropOpt (Some x) ''quantity'')) xs
            | _ \<Rightarrow> [])"
proof -
  have its: "normalizeItems rt (getPropOpt (Some response) ''items'') =
      Inr (GroqReceiptResponse.items res)"
    using assms by (rule normalizeResponse_fields(2))
  show ?thesis
  proof (cases "\<exists>xs. getPropOpt (Some response) ''items'' = Some (JArr xs)")
    case True
    then obtain xs where xs: "getPropOpt (Some response) ''items'' = Some (JArr xs)" by blast
    with its have "mapE (normalizeItem rt) xs = Inr (GroqReceiptResponse.items res)" by simp
    then show ?thesis using xs by (simp add: mapE_normalizeItem_quantity)
  next
    case False
    then have "normalizeItems rt (getPropOpt (Some response) ''items'') = Inr []"
      by (cases "(rt, getPropOpt (Some response) ''items'')" rule: normalizeItems.cases) auto
    with its have "GroqReceiptResponse.items res = []" by simp
    then show ?thesis using False by (auto split: option.splits json.splits)
  qed
qed

theorem quantity_passes_numbers_witness:
  "map_sum parseReceipt_message (map quantity \<circ> GroqReceiptResponse.items)
     (normalizeResponse stubRuntime
        (JObj [(''items'', JArr [JObj [(''quantity'', JNum 2)], JObj [(''quantity'', JStr ''two'')],
                                 JObj [(''quantity'', JNum (- 3))]])]))
     = Inr [Some 2, None, Some (- 3)]"
proof -
  obtain res where res: "normalizeResponse stubRuntime
        (JObj [(''items'', JArr [JObj [(''quantity'', JNum 2)], JObj [(''quantity'', JStr ''two'')],
                                 JObj [(''quantity'', JNum (- 3))]])]) = Inr res"
    by (simp add: normalizeResponse_def normalizeItem_def)
  show ?thesis
    using quantity_passes_numbers [OF res] by (simp add: res)
qed

section \<open>Facts about validateImage\<close>

subsection \<open>C8: the pixel ceiling\<close>

text \<open>
  C8: for an image that exists and is at most 20 MB, \<open>validateImage\<close> accepts a width times
  height of exactly 33,177,600 pixels, and rejects 33,177,601 pixels or more with the
  resolution-too-high message.
\<close>

theorem validateImage_pixel_boundary:
  assumes "getInfoAsync w imageUri = Inr fileInfo"
      and "file_exists fileInfo"
      and "(case file_size fileInfo of None \<Rightarrow> 0 | Some sz \<Rightarrow> sz) \<le> 20 * 1024 * 1024"
      and "getSize w imageUri = Inr (wd, ht)"
  shows "(wd * ht = 33177600 \<longrightarrow> validateImage w imageUri = \<lparr> valid = True, error = None \<rparr>) \<and>
         (33177601 \<le> wd * ht \<longrightarrow>
            validateImage w imageUri =
              \<lparr> valid = False, error = Some ''Image resolution too high (max 33 megapixels)'' \<rparr>)"
  using assms by (simp add: validateImage_def)

theorem validateImage_pixel_boundary_witness:
  "validateImage world_8k ''file:///receipt.jpg'' = \<lparr> valid = True, error = None \<rparr> \<and>
   validateImage world_one_pixel_over ''file:///receipt.jpg'' =
     \<lparr> valid = False, error = Some ''Image resolution too high (max 33 megapixels)'' \<rparr>"
  using validateImage_pixel_boundary [of world_8k "''file:///receipt.jpg''"
      "\<lparr> file_exists = True, file_size = Some 5000000 \<rparr>" 7680 4320]
    validateImage_pixel_boundary [of world_one_pixel_over "''file:///receipt.jpg''"
      "\<lparr> file_exists = True, file_size = Some 5000000 \<rparr>" 33177601 1]
  by (simp add: world_8k_def world_one_pixel_over_def)

section \<open>Facts about the retry loop\<close>

lemma show_nat_3: "show_nat 3 = ''3''"
  by (simp add: show_nat.simps digit_char_def)

lemma retryLoop_done:
  "maxRetries < attempt \<Longrightarrow>
   retryLoop attemptOp maxRetries attempt lastError trace =
     (Inr (failureResponse (''Failed after '' @ show_nat maxRetries @ '' attempts: ''
        @ lastError_text lastError)), trace)"
  by (subst retryLoop.simps) simp

lemma retryLoop_return:
  "attempt \<le> maxRetries \<Longrightarrow> attemptOp attempt = Inr result \<Longrightarrow>
   GroqReceiptResponse.total result \<noteq> None \<or> truthy (GroqReceiptResponse.error_message result) \<Longrightarrow>
   retryLoop attemptOp maxRetries attempt lastError trace = (Inr result, trace @ [Attempt attempt])"
  by (subst retryLoop.simps) simp


lemma retryLoop_throw:
  "attempt \<le> maxRetries \<Longrightarrow> attemptOp attempt = Inl err \<Longrightarrow>
   retryLoop attemptOp maxRetries attempt lastError trace =
     retryLoop attemptOp maxRetries (attempt + 1) (Some (toError_message err))
       (trace @ [Attempt attempt]
          @ (if attempt < maxRetries then [Sleep (2 ^ attempt * 1000)] else []))"
  by (subst retryLoop.simps) simp

lemma retryLoop_returns:
  "\<exists>r. fst (retryLoop attemptOp maxRetries attempt lastError trace) = Inr r"
proof (induction attemptOp maxRetries attempt lastError trace rule: retryLoop.induct)
  case (1 attemptOp maxRetries attempt lastError trace)
  show ?case
    using "1.IH" by (subst retryLoop.simps) (auto split: sum.splits)
qed





lemma parseReceipt_try_fetch_rejects:
  "parseReceipt_try rt
     \<lparr> getInfoAsync = (\<lambda>u. Inr \<lparr> file_exists = True, file_size = Some 5000000 \<rparr>),
       getSize = (\<lambda>u. Inr (7680, 4320)),
       readAsStringAsync = (\<lambda>u. Inr ''AAAA''),
       apiKeyEnv = Some ''gsk_test'',
       fetch = (\<lambda>k b. Inl e) \<rparr> imageUri = Inl e"
  by (simp add: parseReceipt_try_def processImageForUpload_def getApiKey_def Let_def
      MAX_BASE64_SIZE_def)

lemma parseReceipt_try_world_8k:
  "parseReceipt_try rt world_8k imageUri = Inl (ErrorObj ''Network request failed'')"
  unfolding world_8k_def by (rule parseReceipt_try_fetch_rejects)












text \<open>
  The loop on its own: if the awaited call threw on every attempt, three attempts would be
  made, with waits of 2000 ms and 4000 ms between them.
\<close>

lemma retryLoop_three_throws:
  assumes "\<forall>n. attemptOp n = Inl (errs n)"
  shows "parseReceiptWithRetryOn attemptOp 3 =
     (Inr \<lparr> GroqReceiptResponse.merchant_name = JNull,
            GroqReceiptResponse.receipt_date = Some JNull,
            GroqReceiptResponse.receipt_number = JNull,
            GroqReceiptResponse.invoice_type = ''unknown'',
            GroqReceiptResponse.items = [],
            GroqReceiptResponse.subtotal = None,
            GroqReceiptResponse.tax = None,
            GroqReceiptResponse.total = None,
            GroqReceiptResponse.currency = ''BDT'',
            GroqReceiptResponse.payment_method = JNull,
            GroqReceiptResponse.confidence_score = 0,
            GroqReceiptResponse.error_message =
              JStr (''Failed after 3 attempts: '' @ toError_message (errs 3)) \<rparr>,
      [Attempt 1, Sleep 2000, Attempt 2, Sleep 4000, Attempt 3])"
proof -
  have a: "attemptOp n = Inl (errs n)" for n using assms by simp
  have n: "(1::nat) + 1 = 2" "(2::nat) + 1 = 3" "(3::nat) + 1 = 4" by simp_all
  have "retryLoop attemptOp 3 1 None [] =
      retryLoop attemptOp 3 (1 + 1) (Some (toError_message (errs 1)))
        ([] @ [Attempt 1] @ (if (1::nat) < 3 then [Sleep (2 ^ 1 * 1000)] else []))"
    by (rule retryLoop_throw) (simp_all add: a)
  also have "\<dots> = retryLoop attemptOp 3 2 (Some (toError_message (errs 1)))
        [Attempt 1, Sleep 2000]"
    unfolding n by simp
  also have "\<dots> = retryLoop attemptOp 3 (2 + 1) (Some (toError_message (errs 2)))
        ([Attempt 1, Sleep 2000] @ [Attempt 2]
           @ (if (2::nat) < 3 then [Sleep (2 ^ 2 * 1000)] else []))"
    by (rule retryLoop_throw) (simp_all add: a)
  also have "\<dots> = retryLoop attemptOp 3 3 (Some (toError_message (errs 2)))
        [Attempt 1, Sleep 2000, Attempt 2, Sleep 4000]"
    unfolding n by simp
  also have "\<dots> = retryLoop attemptOp 3 (3 + 1) (Some (toError_message (errs 3)))
        ([Attempt 1, Sleep 2000, Attempt 2, Sleep 4000] @ [Attempt 3]
           @ (if (3::nat) < 3 then [Sleep (2 ^ 3 * 1000)] else []))"
    by (rule retryLoop_throw) (simp_all add: a)
  also have "\<dots> = retryLoop attemptOp 3 4 (Some (toError_message (errs 3)))
        [Attempt 1, Sleep 2000, Attempt 2, Sleep 4000, Attempt 3]"
    unfolding n by simp
  also have "\<dots> =
      (Inr (failureResponse (''Failed after 3 attempts: '' @ toError_message (errs 3))),
       [Attempt 1, Sleep 2000, Attempt 2, Sleep 4000, Attempt 3])"
    by (simp add: retryLoop_done show_nat_3)
  finally show ?thesis
    by (simp add: parseReceiptWithRetryOn_def failureResponse_def)
qed



subsection \<open>C3: three attempts when every call throws\<close>

text \<open>
  C3 says that when every model call throws, \<open>parseReceiptWithRetry\<close> with
  \<open>maxRetries = 3\<close> makes three attempts, waits 2 s and 4 s between them, and reports a
  failure after 3 attempts. The call the loop awaits is \<open>parseReceipt\<close>, whose own \<open>catch\<close>
  turns every throw into a returned result with an \<open>error_message\<close>; the loop returns such a
  result at once, so its \<open>catch\<close> with the wait is never entered. With a network that is down
  on every attempt (\<open>fetch\<close> rejects), there is one attempt and no wait, and the message is
  that of the network error.
\<close>

theorem network_failure_is_not_retried:
  "fetch (same_world world_8k 1) ''gsk_test'' ''AAAA'' =
     Inl (ErrorObj ''Network request failed'') \<and>
   fetch (same_world world_8k 2) ''gsk_test'' ''AAAA'' =
     Inl (ErrorObj ''Network request failed'') \<and>
   fetch (same_world world_8k 3) ''gsk_test'' ''AAAA'' =
     Inl (ErrorObj ''Network request failed'') \<and>
   parseReceiptWithRetry stubRuntime (same_world world_8k) ''file:///receipt.jpg'' 3 =
     (Inr (failureResponse ''Network request failed''), [Attempt 1])"
proof -
  have f: "fetch (same_world world_8k n) ''gsk_test'' ''AAAA'' =
      Inl (ErrorObj ''Network request failed'')" for n
    by (simp add: same_world_def world_8k_def)
  have p: "parseReceipt stubRuntime (same_world world_8k 1) ''file:///receipt.jpg'' =
      Inr (failureResponse ''Network request failed'')"
    by (simp add: parseReceipt_def same_world_def parseReceipt_try_world_8k)
  have t: "truthy (GroqReceiptResponse.error_message (failureResponse ''Network request failed''))"
    by (simp add: failureResponse_def)
  have "parseReceiptWithRetry stubRuntime (same_world world_8k) ''file:///receipt.jpg'' 3 =
      (Inr (failureResponse ''Network request failed''), [Attempt 1])"
    using p t
    by (simp add: parseReceiptWithRetry_def parseReceiptWithRetryOn_def retryLoop_return
        del: One_nat_def)
  with f show ?thesis by simp
qed

subsection \<open>C4: a value, never an exception\<close>

text \<open>
  C4: for every image reference, every \<open>maxRetries\<close> of at least 1 and every behaviour of the
  file system, the network, the JSON parser and the normalizer, \<open>parseReceiptWithRetry\<close>
  terminates and returns a result; so does its body over any per-attempt operation, throwing
  or not.
\<close>

theorem parseReceiptWithRetry_always_returns:
  assumes "1 \<le> maxRetries"
  shows "(\<exists>result. fst (parseReceiptWithRetry rt worlds imageUri maxRetries) = Inr result) \<and>
         (\<exists>result. fst (parseReceiptWithRetryOn attemptOp maxRetries) = Inr result)"
  by (simp add: parseReceiptWithRetry_def parseReceiptWithRetryOn_def retryLoop_returns)

theorem parseReceiptWithRetry_always_returns_witness:
  "(1::nat) \<le> 3 \<and>
   (\<exists>result. fst (parseReceiptWithRetry stubRuntime (same_world world_8k)
       ''file:///receipt.jpg'' 3) = Inr result) \<and>
   (\<exists>result. fst (parseReceiptWithRetryOn always_throws 3) = Inr result)"
  using parseReceiptWithRetry_always_returns
    [of 3 stubRuntime "same_world world_8k" "''file:///receipt.jpg''" always_throws]
  by simp

subsection \<open>C7: the first usable result is returned\<close>




subsection \<open>C10: parseReceipt catches every failure\<close>




section \<open>Facts about record assembly\<close>

subsection \<open>C6: the assembled Receipt\<close>

text \<open>
  C6: when the storage accepts the insert, \<open>createReceipt\<close> on the \<open>receiptInput\<close> of
  \<open>handleCapture\<close> produces a Receipt whose \<open>total\<close> is the result's total, or 0 when that is
  \<open>null\<close>; whose \<open>id\<close> is \<open>receipt_\<close>, the clock reading of \<open>Date.now()\<close> in decimal, an
  underscore and characters 2 to 8 of the base-36 text of \<open>Math.random()\<close>, and whose
  \<open>created_at\<close> is the ISO text of the clock at creation, both independent of the
  extraction result; and whose other fields equal those of the extraction result.
\<close>

theorem record_assembly:
  assumes "getDb_rejects st = None" and "runAsync_rejects st = None"
  shows "\<exists>receipt. createReceipt rt st (handleCapture_receiptInput result imageUri) = Inr receipt \<and>
           total receipt = (case GroqReceiptResponse.total result of None \<Rightarrow> 0 | Some t \<Rightarrow> t) \<and>
           id receipt =
             ''receipt_'' @ show_nat (date_now st) @ ''_'' @ take 7 (drop 2 (random_base36 st)) \<and>
           created_at receipt = toISOString rt (new_date st) \<and>
           merchant_name receipt = GroqReceiptResponse.merchant_name result \<and>
           receipt_date receipt = GroqReceiptResponse.receipt_date result \<and>
           receipt_number receipt = GroqReceiptResponse.receipt_number result \<and>
           invoice_type receipt = GroqReceiptResponse.invoice_type result \<and>
           items receipt = GroqReceiptResponse.items result \<and>
           subtotal receipt = GroqReceiptResponse.subtotal result \<and>
           tax receipt = GroqReceiptResponse.tax result \<and>
           currency receipt = GroqReceiptResponse.currency result \<and>
           payment_method receipt = GroqReceiptResponse.payment_method result \<and>
           confidence_score receipt = GroqReceiptResponse.confidence_score result \<and>
           error_message receipt = GroqReceiptResponse.error_message result"
proof -
  have n: "nullish_json v JNull = v" for v by (cases v) simp_all
  show ?thesis
    using assms
    by (simp add: createReceipt_def handleCapture_receiptInput_def generateId_def n
        ReceiptInput.defs Receipt.defs)
qed

lemma generateId_stub: "generateId stubStorage = ''receipt_1762153200000_k3j9x2m''"
  by (simp add: generateId_def stubStorage_def show_nat.simps digit_char_def)

theorem record_assembly_witness:
  "getDb_rejects stubStorage = None \<and> runAsync_rejects stubStorage = None \<and>
   (\<exists>receipt. createReceipt stubRuntime stubStorage
        (handleCapture_receiptInput (failureResponse ''Image file not found'') ''file:///gone.jpg'')
        = Inr receipt \<and>
      total receipt = 0 \<and>
      id receipt = ''receipt_1762153200000_k3j9x2m'' \<and>
      error_message receipt = JStr ''Image file not found'')"
proof -
  have db: "getDb_rejects stubStorage = None" "runAsync_rejects stubStorage = None"
    by (simp_all add: stubStorage_def)
  from record_assembly [OF db, of stubRuntime "failureResponse ''Image file not found''"
      "''file:///gone.jpg''"]
  obtain receipt where
    "createReceipt stubRuntime stubStorage
        (handleCapture_receiptInput (failureResponse ''Image file not found'') ''file:///gone.jpg'')
        = Inr receipt"
    and "total receipt = (case GroqReceiptResponse.total (failureResponse ''Image file not found'')
                          of None \<Rightarrow> 0 | Some t \<Rightarrow> t)"
    and "id receipt = ''receipt_'' @ show_nat (date_now stubStorage) @ ''_''
           @ take 7 (drop 2 (random_base36 stubStorage))"
    and "error_message receipt =
           GroqReceiptResponse.error_message (failureResponse ''Image file not found'')"
    by blast
  then show ?thesis
    using db generateId_stub by (auto simp: generateId_def failureResponse_def)
qed

end
